theory Spec2Isabelle
  imports Complex_Main "HOL-Library.FSet" "HOL-Library.Finite_Map" "HOL-Library.Log_Nat"
begin

section \<open>Data model\<close>

text \<open>
  A Go \<^verbatim>\<open>float64\<close> is modelled by its value class: a finite number, the two infinities,
  or not-a-number. Only the operations the engine applies are defined: subtraction,
  division, multiplication, conversion from \<^verbatim>\<open>int\<close>, and the builtins \<^verbatim>\<open>max\<close> and \<^verbatim>\<open>min\<close>.
  The arithmetic on finite numbers is exact (its rounding and the sign of zero are not
  represented); division by a zero is the IEEE result for a positive zero divisor, which
  is what \<^verbatim>\<open>t - t\<close> gives. The conversion from \<^verbatim>\<open>int\<close> rounds as Go does.
\<close>

datatype float64 = Fin real | PInf | NInf | NaN

fun fsub :: "float64 \<Rightarrow> float64 \<Rightarrow> float64" where
  "fsub (Fin a) (Fin b) = Fin (a - b)"
| "fsub NaN _ = NaN"
| "fsub _ NaN = NaN"
| "fsub PInf PInf = NaN"
| "fsub NInf NInf = NaN"
| "fsub PInf _ = PInf"
| "fsub NInf _ = NInf"
| "fsub (Fin a) PInf = NInf"
| "fsub (Fin a) NInf = PInf"

fun fdiv :: "float64 \<Rightarrow> float64 \<Rightarrow> float64" where
  "fdiv (Fin a) (Fin b) =
     (if b \<noteq> 0 then Fin (a / b)
      else if a = 0 then NaN
      else if 0 < a then PInf else NInf)"
| "fdiv NaN _ = NaN"
| "fdiv _ NaN = NaN"
| "fdiv (Fin a) PInf = Fin 0"
| "fdiv (Fin a) NInf = Fin 0"
| "fdiv PInf (Fin b) = (if 0 \<le> b then PInf else NInf)"
| "fdiv NInf (Fin b) = (if 0 \<le> b then NInf else PInf)"
| "fdiv PInf _ = NaN"
| "fdiv NInf _ = NaN"

fun fmul :: "float64 \<Rightarrow> float64 \<Rightarrow> float64" where
  "fmul (Fin a) (Fin b) = Fin (a * b)"
| "fmul NaN _ = NaN"
| "fmul _ NaN = NaN"
| "fmul PInf (Fin b) = (if b = 0 then NaN else if 0 < b then PInf else NInf)"
| "fmul NInf (Fin b) = (if b = 0 then NaN else if 0 < b then NInf else PInf)"
| "fmul (Fin a) PInf = (if a = 0 then NaN else if 0 < a then PInf else NInf)"
| "fmul (Fin a) NInf = (if a = 0 then NaN else if 0 < a then NInf else PInf)"
| "fmul PInf PInf = PInf"
| "fmul NInf NInf = PInf"
| "fmul PInf NInf = NInf"
| "fmul NInf PInf = NInf"

text \<open>
  The conversion \<^verbatim>\<open>float64(t)\<close> of an \<^verbatim>\<open>int\<close> (64 bits wide): the nearest number with a
  significand of 53 bits, a tie going to the even significand. Below \<open>2 ^ 53\<close> in
  magnitude every integer is such a number; from there on, \<open>e\<close> is the number of low
  bits that do not fit, \<open>q\<close> the 53 high bits and \<open>r\<close> the bits cut off.
  \<open>roundToFloat64\<close> is the integer value of the result.
\<close>

definition roundToFloat64 :: "int \<Rightarrow> int" where
  "roundToFloat64 t =
     (if \<bar>t\<bar> < 2 ^ 53 then t
      else
        (let e = nat (bitlen \<bar>t\<bar> - 53);
             q = \<bar>t\<bar> div 2 ^ e;
             r = \<bar>t\<bar> mod 2 ^ e
         in sgn t * (if 2 ^ e < 2 * r \<or> (2 * r = 2 ^ e \<and> odd q) then q + 1 else q) * 2 ^ e))"

definition float64_of_int :: "int \<Rightarrow> float64" where
  "float64_of_int t = Fin (of_int (roundToFloat64 t))"

text \<open>The Go builtins \<^verbatim>\<open>max\<close> and \<^verbatim>\<open>min\<close> on two floats: not-a-number if either is.\<close>

fun fmax :: "float64 \<Rightarrow> float64 \<Rightarrow> float64" where
  "fmax NaN _ = NaN"
| "fmax _ NaN = NaN"
| "fmax PInf _ = PInf"
| "fmax _ PInf = PInf"
| "fmax NInf y = y"
| "fmax x NInf = x"
| "fmax (Fin a) (Fin b) = Fin (max a b)"

fun fmin :: "float64 \<Rightarrow> float64 \<Rightarrow> float64" where
  "fmin NaN _ = NaN"
| "fmin _ NaN = NaN"
| "fmin NInf _ = NInf"
| "fmin _ NInf = NInf"
| "fmin PInf y = y"
| "fmin x PInf = x"
| "fmin (Fin a) (Fin b) = Fin (min a b)"

text \<open>
  The structs the engine reads. The declarations are not among the sources; the fields
  are the ones the engine uses, with the types its expressions force:
  \<^verbatim>\<open>Variables\<close> is a \<^verbatim>\<open>map[string]int\<close> holding \<open>-1\<close> (group not yet set), \<open>-2\<close> (tried
  and failed) or a group index; \<^verbatim>\<open>EventValues\<close> is a \<^verbatim>\<open>map[string]float64\<close>;
  \<^verbatim>\<open>EvaluatorExpression\<close> is a pointer to a compiled expression, \<open>None\<close> when nil.
  Go maps are finite, so they are finite maps here.
\<close>

record 'e MetricDefinition =
  Name :: string
  Expression :: string
  Variables :: "(string, int) fmap"
  EvaluatorExpression :: "'e option"

record EventGroup =
  EventValues :: "(string, float64) fmap"

record EventFrame =
  EventGroups :: "EventGroup list"
  Timestamp :: float64

record Metadata =
  ThreadsPerCore :: int

record Metric =
  MetricName :: string
  MetricValue :: float64

text \<open>
  Errors are values. The message texts are not modelled, except that the error of the
  resolver carries the set of names it lists and the metric's name.
\<close>

datatype error =
    VariablesNotFound "string fset" string
  | PreviouslyFailed
  | NotAssigned error
  | ValueSetToMinus2
  | FrameError error
  | ExternalError string
  | RuntimeError string

section \<open>Variable-to-group resolver\<close>

text \<open>
  \<^verbatim>\<open>metric.Variables[name] = v\<close> for every name of a set. The names are keys of the map
  wherever the resolver does this (they come from its key set), so no key is added.
\<close>

definition assignAll :: "string fset \<Rightarrow> int \<Rightarrow> (string, int) fmap \<Rightarrow> (string, int) fmap" where
  "assignAll names v vars = fmmap_keys (\<lambda>k old. if k |\<in>| names then v else old) vars"

text \<open>
  The inner loop of \<^verbatim>\<open>loadMetricBestGroups\<close> (lines 28 to 39), from group index \<open>groupIdx\<close>
  on. The triple is \<^verbatim>\<open>(bestGroupIdx, bestMatches, matchedNames)\<close>; \<^verbatim>\<open>matchedNames\<close> is nil
  until a group matches and is read only after one did.
\<close>

fun scanGroups ::
  "string fset \<Rightarrow> EventGroup list \<Rightarrow> nat \<Rightarrow> int \<times> nat \<times> string fset \<Rightarrow> int \<times> nat \<times> string fset"
where
  "scanGroups remaining [] groupIdx best = best"
| "scanGroups remaining (g # gs) groupIdx (bestGroupIdx, bestMatches, matchedNames) =
     (let intersection = remaining |\<inter>| fmdom (EventValues g) in
      if fcard intersection > bestMatches then
        (if fcard intersection = fcard remaining
         then (int groupIdx, fcard intersection, intersection)
         else scanGroups remaining gs (Suc groupIdx) (int groupIdx, fcard intersection, intersection))
      else scanGroups remaining gs (Suc groupIdx) (bestGroupIdx, bestMatches, matchedNames))"

text \<open>
  What the scan keeps true of its triple: either nothing matched yet (\<open>-1\<close>, \<open>0\<close>), or
  the triple names a group and a non-empty set of remaining names.
\<close>

definition bestOk :: "string fset \<Rightarrow> int \<times> nat \<times> string fset \<Rightarrow> bool" where
  "bestOk remaining best =
     (case best of (bestGroupIdx, bestMatches, matchedNames) \<Rightarrow>
        (bestGroupIdx = -1 \<and> bestMatches = 0) \<or>
        (0 \<le> bestGroupIdx \<and> 0 < bestMatches \<and> fcard matchedNames = bestMatches \<and>
         matchedNames |\<subseteq>| remaining))"

lemma scanGroups_bestOk:
  "bestOk remaining best \<Longrightarrow> bestOk remaining (scanGroups remaining gs groupIdx best)"
proof (induction gs arbitrary: groupIdx best)
  case Nil
  then show ?case by simp
next
  case (Cons g gs)
  obtain bi bm mn where best: "best = (bi, bm, mn)" by (cases best)
  let ?i = "remaining |\<inter>| fmdom (EventValues g)"
  have new: "bestOk remaining (int groupIdx, fcard ?i, ?i)" if "bm < fcard ?i"
    using that by (simp add: bestOk_def)
  show ?case
  proof (cases "bm < fcard ?i")
    case True
    show ?thesis
    proof (cases "fcard ?i = fcard remaining")
      case full: True
      with True new show ?thesis by (simp add: best Let_def)
    next
      case False
      with True Cons.IH[OF new[OF True], of "Suc groupIdx"] show ?thesis
        by (simp add: best Let_def)
    qed
  next
    case False
    with Cons.IH[of "(bi, bm, mn)" "Suc groupIdx"] Cons.prems show ?thesis
      by (simp add: best Let_def)
  qed
qed

lemma scanGroups_shrinks:
  assumes "scanGroups remaining gs 0 (-1, 0, {||}) = (bestGroupIdx, bestMatches, matchedNames)"
    and "bestGroupIdx \<noteq> -1"
  shows "fcard (remaining |-| matchedNames) < fcard remaining"
proof -
  have "bestOk remaining (scanGroups remaining gs 0 (-1, 0, {||}))"
    by (rule scanGroups_bestOk) (simp add: bestOk_def)
  with assms have sub: "matchedNames |\<subseteq>| remaining" and pos: "0 < fcard matchedNames"
    by (auto simp: bestOk_def)
  from pos have "matchedNames \<noteq> {||}" by (auto simp: fcard_fempty)
  with sub have "remaining |-| matchedNames |\<subset>| remaining" by auto
  then show ?thesis by (rule pfsubset_fcard_mono)
qed

text \<open>
  The outer loop of \<^verbatim>\<open>loadMetricBestGroups\<close> (lines 20 to 52): the state is the set of
  remaining names and the \<^verbatim>\<open>Variables\<close> map, which the loop writes through the pointer.
  It returns the map as left behind and the error.
\<close>

function resolveLoop ::
  "string \<Rightarrow> EventGroup list \<Rightarrow> string fset \<Rightarrow> (string, int) fmap
     \<Rightarrow> (string, int) fmap \<times> error option"
where
  "resolveLoop name groups remaining vars =
     (if fcard remaining = 0 then (vars, None)
      else
        (case scanGroups remaining groups 0 (-1, 0, {||}) of
           (bestGroupIdx, bestMatches, matchedNames) \<Rightarrow>
             if bestGroupIdx = -1
             then (assignAll remaining (-2) vars, Some (VariablesNotFound remaining name))
             else resolveLoop name groups (remaining |-| matchedNames)
                    (assignAll matchedNames bestGroupIdx vars)))"
  by pat_completeness auto
termination
  apply (relation "measure (\<lambda>(name, groups, remaining, vars). fcard remaining)")
   apply simp
  apply clarsimp
  apply (rule scanGroups_shrinks)
   apply (rule sym, assumption)
  apply assumption
  done

declare resolveLoop.simps [simp del]

definition loadMetricBestGroups ::
  "'e MetricDefinition \<Rightarrow> EventFrame \<Rightarrow> (string, int) fmap \<times> error option" where
  "loadMetricBestGroups metric frame =
     resolveLoop (Name metric) (EventGroups frame) (fmdom (Variables metric)) (Variables metric)"

section \<open>Value normalizer\<close>

text \<open>
  A Go call either returns or panics; a panic that nobody recovers ends the process. The
  value of a runtime panic (an index out of range, a failed type assertion) is a runtime
  error.
\<close>

datatype 'a outcome = Return 'a | Panic error

text \<open>\<^verbatim>\<open>group.EventValues[name]\<close>: reading a key a Go map does not hold gives the zero value.\<close>

definition eventValue :: "EventGroup \<Rightarrow> string \<Rightarrow> float64" where
  "eventValue g name = (case fmlookup (EventValues g) name of None \<Rightarrow> Fin 0 | Some v \<Rightarrow> v)"

text \<open>
  \<^verbatim>\<open>metric.Variables[variableName]\<close>, read for the keys of the map (a name that is not
  a key would read as the zero value).
\<close>

definition variableGroup :: "(string, int) fmap \<Rightarrow> string \<Rightarrow> int" where
  "variableGroup vars variableName =
     (case fmlookup vars variableName of None \<Rightarrow> 0 | Some groupIdx \<Rightarrow> groupIdx)"

text \<open>Lines 86 to 91, for a group index that is in range.\<close>

definition variableValue :: "EventFrame \<Rightarrow> float64 \<Rightarrow> Metadata \<Rightarrow> string \<Rightarrow> int \<Rightarrow> float64" where
  "variableValue frame previousTimestamp metadata variableName groupIdx =
     (let v = fdiv (eventValue (EventGroups frame ! nat groupIdx) variableName)
                (fsub (Timestamp frame) previousTimestamp)
      in if ThreadsPerCore metadata > 1 \<and> variableName = ''cstate_core/c6-residency/''
         then fmul v (float64_of_int (ThreadsPerCore metadata))
         else v)"

text \<open>
  The second loop of \<^verbatim>\<open>getExpressionVariables\<close> (lines 81 to 92). It ranges over the
  keys of the map in no fixed order; each pass writes its own key and nothing else, so
  the bindings do not depend on the order. Indexing \<^verbatim>\<open>frame.EventGroups\<close> outside its
  range panics, in whichever pass meets such an index first. The error of line 83 is
  set and the loop goes on (to the index \<open>-2\<close>, which panics).
\<close>

definition setVariableValues ::
  "(string, int) fmap \<Rightarrow> EventFrame \<Rightarrow> float64 \<Rightarrow> Metadata
     \<Rightarrow> ((string, float64) fmap \<times> error option) outcome"
where
  "setVariableValues vars frame previousTimestamp metadata =
     (if fBex (fmdom vars) (\<lambda>variableName.
            variableGroup vars variableName < 0 \<or>
            int (length (EventGroups frame)) \<le> variableGroup vars variableName)
      then Panic (RuntimeError ''index out of range'')
      else Return (fmmap_keys (variableValue frame previousTimestamp metadata) vars,
                   if fBex (fmdom vars) (\<lambda>variableName. variableGroup vars variableName = -2)
                   then Some ValueSetToMinus2 else None))"

text \<open>
  \<^verbatim>\<open>getExpressionVariables\<close>. The metric comes by value, but its \<^verbatim>\<open>Variables\<close> map is
  shared with the caller's definition, so what the resolver writes stays: the first
  component of the result is that map after the call. Then the bindings and the error.
  The first loop returns as soon as it meets a \<open>-2\<close>, so with any \<open>-2\<close> in the map it
  returns the error, whatever the order; otherwise \<^verbatim>\<open>loadGroups\<close> is set when some
  variable holds \<open>-1\<close>.
\<close>

definition getExpressionVariables ::
  "'e MetricDefinition \<Rightarrow> EventFrame \<Rightarrow> float64 \<Rightarrow> Metadata
     \<Rightarrow> ((string, int) fmap \<times> (string, float64) fmap \<times> error option) outcome"
where
  "getExpressionVariables metric frame previousTimestamp metadata =
     (if fBex (fmdom (Variables metric))
           (\<lambda>variableName. variableGroup (Variables metric) variableName = -2)
      then Return (Variables metric, fmempty, Some PreviouslyFailed)
      else
        (let loadGroups = fBex (fmdom (Variables metric))
               (\<lambda>variableName. variableGroup (Variables metric) variableName = -1) in
         case (if loadGroups then loadMetricBestGroups metric frame
               else (Variables metric, None)) of
           (vars, Some e) \<Rightarrow> Return (vars, fmempty, Some (NotAssigned e))
         | (vars, None) \<Rightarrow>
             (case setVariableValues vars frame previousTimestamp metadata of
                Panic p \<Rightarrow> Panic p
              | Return (variables, err) \<Rightarrow> Return (vars, variables, err))))"

section \<open>Expression evaluator\<close>

text \<open>
  The values that pass through \<^verbatim>\<open>interface{}\<close> at the evaluator's boundary, and the
  ways a call into the evaluator library (or into a function registered with it) ends:
  it returns a value, returns an error, or panics. The library raises no panic of its
  own; the panics that come out of it are Go runtime errors, and their values are
  errors.
\<close>

datatype gvalue = GFloat float64 | GInt int | GBool bool | GString string

datatype 'a callres = Value 'a | Fails error | Panicked error

type_synonym ExpressionFunction = "gvalue list \<Rightarrow> gvalue callres"

text \<open>
  The evaluator library is not part of the repository: its two entry points are
  parameters.
\<close>

record 'e evaluator =
  NewEvaluableExpressionWithFunctions ::
    "string \<Rightarrow> (string, ExpressionFunction) fmap \<Rightarrow> 'e callres"
  Evaluate :: "'e \<Rightarrow> (string, float64) fmap \<Rightarrow> gvalue callres"

text \<open>
  The type switch of lines 102 to 107: an \<^verbatim>\<open>int\<close> is converted, a \<^verbatim>\<open>float64\<close> is taken,
  anything else leaves the zero the variable was declared with.
\<close>

fun switchFloat :: "gvalue \<Rightarrow> float64" where
  "switchFloat (GInt t) = float64_of_int t"
| "switchFloat (GFloat t) = t"
| "switchFloat _ = Fin 0"

text \<open>The two registered functions. \<^verbatim>\<open>args[0]\<close> and \<^verbatim>\<open>args[1]\<close> panic on a shorter list.\<close>

fun maxFunction :: ExpressionFunction where
  "maxFunction (a0 # a1 # rest) = Value (GFloat (fmax (switchFloat a0) (switchFloat a1)))"
| "maxFunction _ = Panicked (RuntimeError ''index out of range'')"

fun minFunction :: ExpressionFunction where
  "minFunction (a0 # a1 # rest) = Value (GFloat (fmin (switchFloat a0) (switchFloat a1)))"
| "minFunction _ = Panicked (RuntimeError ''index out of range'')"

definition getEvaluatorFunctions :: "(string, ExpressionFunction) fmap" where
  "getEvaluatorFunctions = fmupd ''min'' minFunction (fmupd ''max'' maxFunction fmempty)"

text \<open>
  Lines 151 to 154 with the deferred recovery: a panic of \<^verbatim>\<open>Evaluate\<close> becomes the
  returned error, with no result.
\<close>

definition runEvaluate ::
  "'e evaluator \<Rightarrow> 'e \<Rightarrow> (string, float64) fmap \<Rightarrow> gvalue option \<times> error option" where
  "runEvaluate ev expr variables =
     (case Evaluate ev expr variables of
        Value r \<Rightarrow> (Some r, None)
      | Fails e \<Rightarrow> (None, Some e)
      | Panicked e \<Rightarrow> (None, Some e))"

text \<open>
  \<^verbatim>\<open>evaluateExpression\<close>. The metric is a parameter passed by value: line 149 writes
  the compiled expression into this local copy. The first component is the local copy
  as it is when the function returns; then the result and the error.
\<close>

definition evaluateExpression ::
  "'e evaluator \<Rightarrow> 'e MetricDefinition \<Rightarrow> (string, float64) fmap
     \<Rightarrow> (string, ExpressionFunction) fmap
     \<Rightarrow> 'e MetricDefinition \<times> gvalue option \<times> error option"
where
  "evaluateExpression ev metric variables functions =
     (case EvaluatorExpression metric of
        None \<Rightarrow>
          (case NewEvaluableExpressionWithFunctions ev (Expression metric) functions of
             Fails e \<Rightarrow> (metric, None, Some e)
           | Panicked e \<Rightarrow> (metric, None, Some e)
           | Value evExpression \<Rightarrow>
               (metric\<lparr>EvaluatorExpression := Some evExpression\<rparr>,
                runEvaluate ev evExpression variables))
      | Some expr \<Rightarrow> (metric, runEvaluate ev expr variables))"

section \<open>Frame pipeline\<close>

text \<open>
  One pass of the loop of \<^verbatim>\<open>processEvents\<close> (lines 165 to 184) for the definition
  \<^verbatim>\<open>metricDef\<close>, a copy of the slice element. It gives the slice element as it is after
  the pass (only the shared \<^verbatim>\<open>Variables\<close> map can have changed: the copy that
  \<^verbatim>\<open>evaluateExpression\<close> wrote to is dropped) and the metric appended, if any. The
  assertion \<^verbatim>\<open>result.(float64)\<close> panics on any other result. In both error branches
  \<^verbatim>\<open>err\<close> is reset to nil, and it is nil after an append.
\<close>

definition metricPass ::
  "'e evaluator \<Rightarrow> (string, ExpressionFunction) fmap \<Rightarrow> EventFrame \<Rightarrow> float64 \<Rightarrow> Metadata
     \<Rightarrow> 'e MetricDefinition \<Rightarrow> ('e MetricDefinition \<times> Metric option) outcome"
where
  "metricPass ev functions eventFrame previousTimestamp metadata metricDef =
     (case getExpressionVariables metricDef eventFrame previousTimestamp metadata of
        Panic p \<Rightarrow> Panic p
      | Return (vars, variables, err) \<Rightarrow>
          (let stored = metricDef\<lparr>Variables := vars\<rparr> in
           case err of
             Some e \<Rightarrow> Return (stored, None)
           | None \<Rightarrow>
               (case evaluateExpression ev stored variables functions of
                  (local, result, Some e) \<Rightarrow> Return (stored, None)
                | (local, Some (GFloat v), None) \<Rightarrow>
                    Return (stored, Some \<lparr>MetricName = Name metricDef, MetricValue = v\<rparr>)
                | (local, _, None) \<Rightarrow> Panic (RuntimeError ''interface conversion''))))"

text \<open>
  The loop over the definitions. \<^verbatim>\<open>err\<close> enters with the value it had before the loop
  and every pass that completes leaves it nil.
\<close>

fun processMetrics ::
  "'e evaluator \<Rightarrow> (string, ExpressionFunction) fmap \<Rightarrow> EventFrame \<Rightarrow> float64 \<Rightarrow> Metadata
     \<Rightarrow> 'e MetricDefinition list \<Rightarrow> Metric list \<Rightarrow> error option
     \<Rightarrow> ('e MetricDefinition list \<times> Metric list \<times> error option) outcome"
where
  "processMetrics ev functions eventFrame previousTimestamp metadata [] metrics err =
     Return ([], metrics, err)"
| "processMetrics ev functions eventFrame previousTimestamp metadata (metricDef # rest) metrics err =
     (case metricPass ev functions eventFrame previousTimestamp metadata metricDef of
        Panic p \<Rightarrow> Panic p
      | Return (stored, produced) \<Rightarrow>
          (case processMetrics ev functions eventFrame previousTimestamp metadata rest
                  (case produced of None \<Rightarrow> metrics | Some m \<Rightarrow> metrics @ [m]) None of
             Panic p \<Rightarrow> Panic p
           | Return (rest', metrics', err') \<Rightarrow> Return (stored # rest', metrics', err')))"

text \<open>
  \<^verbatim>\<open>processEvents\<close>. \<^verbatim>\<open>getEventFrame\<close> is not among the sources: it is a parameter, giving
  the frame and the error of the call. After a failed call the function does not return:
  it wraps the error and goes on with the frame it was given. The result holds the
  definitions as the call leaves them, the metrics, the timestamp and the error.
\<close>

definition processEvents ::
  "(string list \<Rightarrow> EventFrame \<times> error option) \<Rightarrow> 'e evaluator
     \<Rightarrow> string list \<Rightarrow> 'e MetricDefinition list \<Rightarrow> (string, ExpressionFunction) fmap
     \<Rightarrow> float64 \<Rightarrow> Metadata
     \<Rightarrow> ('e MetricDefinition list \<times> Metric list \<times> float64 \<times> error option) outcome"
where
  "processEvents getEventFrame ev perfEvents metricDefinitions functions previousTimestamp metadata =
     (case getEventFrame perfEvents of
        (eventFrame, frameErr) \<Rightarrow>
          (case processMetrics ev functions eventFrame previousTimestamp metadata
                  metricDefinitions [] (map_option FrameError frameErr) of
             Panic p \<Rightarrow> Panic p
           | Return (defs, metrics, err) \<Rightarrow>
               Return (defs, metrics, Timestamp eventFrame, err)))"

section \<open>Bounded loop and the choice in the words of the specification\<close>

text \<open>
  The outer loop of the resolver once more, with a bound on the number of times the loop
  head is reached: \<open>None\<close> when the bound is used up before the loop has left.
\<close>

fun resolveLoopFuel ::
  "nat \<Rightarrow> string \<Rightarrow> EventGroup list \<Rightarrow> string fset \<Rightarrow> (string, int) fmap
     \<Rightarrow> ((string, int) fmap \<times> error option) option"
where
  "resolveLoopFuel 0 name groups remaining vars = None"
| "resolveLoopFuel (Suc fuel) name groups remaining vars =
     (if fcard remaining = 0 then Some (vars, None)
      else
        (case scanGroups remaining groups 0 (-1, 0, {||}) of
           (bestGroupIdx, bestMatches, matchedNames) \<Rightarrow>
             if bestGroupIdx = -1
             then Some (assignAll remaining (-2) vars, Some (VariablesNotFound remaining name))
             else resolveLoopFuel fuel name groups (remaining |-| matchedNames)
                    (assignAll matchedNames bestGroupIdx vars)))"




section \<open>States and sample data\<close>

text \<open>
  Every variable of the map holds the index of a group of the frame: what the second
  loop of the normalizer needs in order not to panic.
\<close>

definition groupsInRange :: "EventFrame \<Rightarrow> (string, int) fmap \<Rightarrow> bool" where
  "groupsInRange frame vars =
     fBall (fmdom vars) (\<lambda>variableName.
        0 \<le> variableGroup vars variableName \<and>
        variableGroup vars variableName < int (length (EventGroups frame)))"

text \<open>
  Sample data for the examples: a metric with one variable, held at a given group index,
  a frame of one group with one event, and the host metadata.
\<close>

definition exampleMetadata :: "int \<Rightarrow> Metadata" where
  "exampleMetadata threads = \<lparr>ThreadsPerCore = threads\<rparr>"

definition exampleMetric :: "string \<Rightarrow> int \<Rightarrow> string MetricDefinition" where
  "exampleMetric variableName groupIdx =
     \<lparr>Name = ''m'', Expression = variableName,
      Variables = fmupd variableName groupIdx fmempty, EvaluatorExpression = None\<rparr>"

definition exampleFrame :: "string \<Rightarrow> real \<Rightarrow> real \<Rightarrow> EventFrame" where
  "exampleFrame eventName raw timestamp =
     \<lparr>EventGroups = [\<lparr>EventValues = fmupd eventName (Fin raw) fmempty\<rparr>],
      Timestamp = Fin timestamp\<rparr>"

text \<open>
  A fault of the evaluator for one metric: compiling its formula, or evaluating the
  compiled formula with the bindings, does not return a value (it returns an error or
  panics).
\<close>

definition evaluatorFaults ::
  "'e evaluator \<Rightarrow> 'e MetricDefinition \<Rightarrow> (string, float64) fmap
     \<Rightarrow> (string, ExpressionFunction) fmap \<Rightarrow> bool"
where
  "evaluatorFaults ev metric variables functions =
     (case EvaluatorExpression metric of
        None \<Rightarrow>
          (case NewEvaluableExpressionWithFunctions ev (Expression metric) functions of
             Value evExpression \<Rightarrow>
               (case Evaluate ev evExpression variables of Value r \<Rightarrow> False | _ \<Rightarrow> True)
           | _ \<Rightarrow> True)
      | Some expr \<Rightarrow> (case Evaluate ev expr variables of Value r \<Rightarrow> False | _ \<Rightarrow> True))"

text \<open>
  The loop of the pipeline with one definition skipped: the definition is kept as
  stored and the other definitions give the metrics and the error.
\<close>

definition skipMetric ::
  "'e MetricDefinition
     \<Rightarrow> ('e MetricDefinition list \<times> Metric list \<times> error option) outcome
     \<Rightarrow> ('e MetricDefinition list \<times> Metric list \<times> error option) outcome"
where
  "skipMetric stored rest =
     (case rest of
        Panic p \<Rightarrow> Panic p
      | Return (rest', metrics', err') \<Rightarrow> Return (stored # rest', metrics', err'))"

text \<open>
  A stand-in for the evaluator library in the examples: a formula is one variable name,
  the empty formula does not compile, and evaluation looks the name up in the bindings.
  Two stand-ins for \<^verbatim>\<open>getEventFrame\<close>: one that fails, handing back an empty frame with
  its error, and one that gives the sample frame.
\<close>

definition exampleEvaluator :: "string evaluator" where
  "exampleEvaluator =
     \<lparr>NewEvaluableExpressionWithFunctions =
        (\<lambda>expression functions.
           if expression = [] then Fails (ExternalError ''Unexpected end of expression'')
           else Value expression),
      Evaluate =
        (\<lambda>expression variables.
           case fmlookup variables expression of
             None \<Rightarrow> Fails (ExternalError ''No parameter found'')
           | Some v \<Rightarrow> Value (GFloat v))\<rparr>"

definition failingGetEventFrame :: "string list \<Rightarrow> EventFrame \<times> error option" where
  "failingGetEventFrame perfEvents =
     (\<lparr>EventGroups = [], Timestamp = Fin 0\<rparr>, Some (ExternalError ''unrecognized event format''))"

definition exampleGetEventFrame :: "string list \<Rightarrow> EventFrame \<times> error option" where
  "exampleGetEventFrame perfEvents = (exampleFrame ''instr'' 2000000000 1, None)"

definition brokenMetric :: "string MetricDefinition" where
  "brokenMetric = (exampleMetric ''instr'' 0)\<lparr>Name := ''broken'', Expression := []\<rparr>"

section \<open>Resolution states over a run\<close>

text \<open>
  The states of a variable as the map encodes them: \<open>-1\<close> is Unresolved, \<open>-2\<close> is Failed,
  an index from 0 on is ResolvedToGroup. A map is \<open>startable\<close> when its variables are
  all Unresolved (as every definition starts) or none is: the resolver never leaves a
  map otherwise. \<open>stateStep\<close> is a permitted change of one variable's state: none, or
  from Unresolved to Failed or to a group. \<open>variablesAdvance\<close> relates a definition's map
  at two moments of a run: same names, every variable changed by a permitted step, no
  change at all once a variable is Failed or once all are resolved.
\<close>

definition anyFailed :: "(string, int) fmap \<Rightarrow> bool" where
  "anyFailed vars = fBex (fmdom vars) (\<lambda>variableName. variableGroup vars variableName = -2)"

definition anyUnresolved :: "(string, int) fmap \<Rightarrow> bool" where
  "anyUnresolved vars = fBex (fmdom vars) (\<lambda>variableName. variableGroup vars variableName = -1)"

definition allUnresolved :: "(string, int) fmap \<Rightarrow> bool" where
  "allUnresolved vars = fBall (fmdom vars) (\<lambda>variableName. variableGroup vars variableName = -1)"

definition allResolved :: "(string, int) fmap \<Rightarrow> bool" where
  "allResolved vars = fBall (fmdom vars) (\<lambda>variableName. 0 \<le> variableGroup vars variableName)"

definition startable :: "(string, int) fmap \<Rightarrow> bool" where
  "startable vars = (allUnresolved vars \<or> \<not> anyUnresolved vars)"

definition stateStep :: "int \<Rightarrow> int \<Rightarrow> bool" where
  "stateStep old new = (new = old \<or> (old = -1 \<and> (new = -2 \<or> 0 \<le> new)))"

definition variablesAdvance :: "(string, int) fmap \<Rightarrow> (string, int) fmap \<Rightarrow> bool" where
  "variablesAdvance old new =
     (fmdom new = fmdom old
      \<and> fBall (fmdom old) (\<lambda>variableName.
           stateStep (variableGroup old variableName) (variableGroup new variableName))
      \<and> (anyFailed old \<longrightarrow> new = old)
      \<and> (allResolved old \<longrightarrow> new = old)
      \<and> startable new)"

definition defAdvance :: "'e MetricDefinition \<Rightarrow> 'e MetricDefinition \<Rightarrow> bool" where
  "defAdvance d d' = (Name d' = Name d \<and> variablesAdvance (Variables d) (Variables d'))"

text \<open>
  Modelled from the spec: the sampling loop that calls \<^verbatim>\<open>processEvents\<close> is not among
  the sources. The pipeline is called once per sample, in order, reusing the same
  definitions across calls. Here every call has its own sample, previous timestamp and
  metadata (so every caller is covered) and receives the definitions as the call before
  left them; the result holds the definitions at the end and the metrics of each call.
  A panic ends the sequence.
\<close>

fun pipelineCalls ::
  "(string list \<Rightarrow> EventFrame \<times> error option) \<Rightarrow> 'e evaluator
     \<Rightarrow> (string, ExpressionFunction) fmap \<Rightarrow> 'e MetricDefinition list
     \<Rightarrow> (string list \<times> float64 \<times> Metadata) list
     \<Rightarrow> ('e MetricDefinition list \<times> Metric list list) outcome"
where
  "pipelineCalls getEventFrame ev functions defs [] = Return (defs, [])"
| "pipelineCalls getEventFrame ev functions defs ((perfEvents, previousTimestamp, metadata) # calls) =
     (case processEvents getEventFrame ev perfEvents defs functions previousTimestamp metadata of
        Panic p \<Rightarrow> Panic p
      | Return (defs1, metrics, timeStamp, err) \<Rightarrow>
          (case pipelineCalls getEventFrame ev functions defs1 calls of
             Panic p \<Rightarrow> Panic p
           | Return (defs2, outs) \<Rightarrow> Return (defs2, metrics # outs)))"

text \<open>
  Sample data for a run over two frame layouts: named metrics, a later frame whose
  groups differ from the first frame's, and a \<^verbatim>\<open>getEventFrame\<close> that gives the later
  frame for the sample \<open>later\<close>.
\<close>

definition namedMetric :: "string \<Rightarrow> string \<Rightarrow> int \<Rightarrow> string MetricDefinition" where
  "namedMetric name variableName groupIdx = (exampleMetric variableName groupIdx)\<lparr>Name := name\<rparr>"

definition laterFrame :: EventFrame where
  "laterFrame =
     \<lparr>EventGroups = [\<lparr>EventValues = fmupd ''cycles'' (Fin 1000000000) fmempty\<rparr>,
                     \<lparr>EventValues = fmupd ''instr'' (Fin 2000000000) fmempty\<rparr>],
      Timestamp = Fin 2\<rparr>"

definition twoLayoutsGetEventFrame :: "string list \<Rightarrow> EventFrame \<times> error option" where
  "twoLayoutsGetEventFrame perfEvents =
     (if perfEvents = [''later''] then laterFrame else exampleFrame ''instr'' 2000000000 1, None)"

section \<open>The resolver's start, its visits and its outcome\<close>






section \<open>The registered functions\<close>

lemma roundToFloat64_exact: "\<bar>t\<bar> \<le> 2 ^ 53 \<Longrightarrow> roundToFloat64 t = t"
proof -
  assume a: "\<bar>t\<bar> \<le> 2 ^ 53"
  have p: "roundToFloat64 9007199254740992 = 9007199254740992" by code_simp
  have n: "roundToFloat64 (- 9007199254740992) = - 9007199254740992" by code_simp
  show ?thesis
  proof (cases "\<bar>t\<bar> < 2 ^ 53")
    case True
    then show ?thesis by (simp add: roundToFloat64_def)
  next
    case False
    with a have "t = 9007199254740992 \<or> t = - 9007199254740992" by auto
    with p n show ?thesis by auto
  qed
qed

lemma roundToFloat64_pos: "0 < t \<Longrightarrow> 0 < roundToFloat64 t"
proof (cases "\<bar>t\<bar> < 2 ^ 53")
  case True
  assume "0 < t"
  with True show ?thesis by (simp add: roundToFloat64_def)
next
  case False
  assume pos: "0 < t"
  define e where "e = nat (bitlen t - 53)"
  define q where "q = t div 2 ^ e"
  define q' where "q' = (if 2 ^ e < 2 * (t mod 2 ^ e) \<or> (2 * (t mod 2 ^ e) = 2 ^ e \<and> odd q)
                          then q + 1 else q)"
  from False pos have eq: "roundToFloat64 t = q' * 2 ^ e"
    by (simp add: roundToFloat64_def Let_def e_def q_def q'_def)
  from bitlen_bounds[OF pos] have lo: "2 ^ nat (bitlen t - 1) \<le> t" by simp
  have "(2::int) ^ e \<le> 2 ^ nat (bitlen t - 1)"
    unfolding e_def by (rule power_increasing) auto
  from this lo have "2 ^ e \<le> t" by (rule order_trans)
  then have "(2::int) ^ e div 2 ^ e \<le> t div 2 ^ e"
    by (rule zdiv_mono1) simp
  then have "1 \<le> q" by (simp add: q_def)
  then have "0 < q'" by (simp add: q'_def)
  then have "0 < q' * 2 ^ e" by simp
  with eq show ?thesis by simp
qed


lemma float64_of_int_exact: "\<bar>t\<bar> \<le> 2 ^ 53 \<Longrightarrow> float64_of_int t = Fin (of_int t)"
  by (simp add: float64_of_int_def roundToFloat64_exact)

lemma roundToFloat64_beyond: "roundToFloat64 9007199254740993 = 9007199254740992"
  by code_simp

text \<open>
  C9 as stated fails for integer arguments that \<^verbatim>\<open>float64\<close> cannot hold: \<open>max\<close> of
  \<open>2 ^ 53 + 1\<close> and 0 returns \<open>2 ^ 53\<close>, which is neither argument.
\<close>

theorem max_of_large_int_counterexample:
  "maxFunction [GInt 9007199254740993, GInt 0] = Value (GFloat (Fin 9007199254740992))"
  by (simp add: float64_of_int_def roundToFloat64_beyond roundToFloat64_exact)

text \<open>
  C9, amended. The functions registered as \<open>max\<close> and \<open>min\<close> read two arguments, each an
  integer or a (finite) real, and return a real: the larger, respectively the smaller,
  of the two, where an integer argument counts with its conversion to \<^verbatim>\<open>float64\<close>. The
  conversion is the integer itself up to a magnitude of \<open>2 ^ 53\<close>; beyond that it
  rounds. With the arguments 3 and 7 they give 7.0 and 3.0, whether the arguments
  arrive as integers or as reals.
\<close>

theorem max_min_functions:
  "fmlookup getEvaluatorFunctions ''max'' = Some maxFunction
   \<and> fmlookup getEvaluatorFunctions ''min'' = Some minFunction
   \<and> maxFunction [GInt a, GInt b]
       = Value (GFloat (Fin (max (of_int (roundToFloat64 a)) (of_int (roundToFloat64 b)))))
   \<and> maxFunction [GInt a, GFloat (Fin y)] = Value (GFloat (Fin (max (of_int (roundToFloat64 a)) y)))
   \<and> maxFunction [GFloat (Fin x), GInt b] = Value (GFloat (Fin (max x (of_int (roundToFloat64 b)))))
   \<and> maxFunction [GFloat (Fin x), GFloat (Fin y)] = Value (GFloat (Fin (max x y)))
   \<and> minFunction [GInt a, GInt b]
       = Value (GFloat (Fin (min (of_int (roundToFloat64 a)) (of_int (roundToFloat64 b)))))
   \<and> minFunction [GInt a, GFloat (Fin y)] = Value (GFloat (Fin (min (of_int (roundToFloat64 a)) y)))
   \<and> minFunction [GFloat (Fin x), GInt b] = Value (GFloat (Fin (min x (of_int (roundToFloat64 b)))))
   \<and> minFunction [GFloat (Fin x), GFloat (Fin y)] = Value (GFloat (Fin (min x y)))
   \<and> (\<bar>a\<bar> \<le> 2 ^ 53 \<longrightarrow> roundToFloat64 a = a)
   \<and> (\<bar>a\<bar> \<le> 2 ^ 53 \<and> \<bar>b\<bar> \<le> 2 ^ 53 \<longrightarrow>
        maxFunction [GInt a, GInt b] = Value (GFloat (Fin (of_int (max a b))))
        \<and> minFunction [GInt a, GInt b] = Value (GFloat (Fin (of_int (min a b)))))
   \<and> maxFunction [GFloat (Fin 3), GFloat (Fin 7)] = Value (GFloat (Fin 7))
   \<and> minFunction [GFloat (Fin 3), GFloat (Fin 7)] = Value (GFloat (Fin 3))
   \<and> maxFunction [GInt 3, GInt 7] = Value (GFloat (Fin 7))
   \<and> minFunction [GInt 3, GInt 7] = Value (GFloat (Fin 3))"
proof -
  have small: "roundToFloat64 3 = 3" "roundToFloat64 7 = 7"
    by (simp_all add: roundToFloat64_exact)
  have exact: "maxFunction [GInt a, GInt b] = Value (GFloat (Fin (of_int (max a b))))
        \<and> minFunction [GInt a, GInt b] = Value (GFloat (Fin (of_int (min a b))))"
    if "\<bar>a\<bar> \<le> 2 ^ 53" "\<bar>b\<bar> \<le> 2 ^ 53"
    using that by (simp add: float64_of_int_def roundToFloat64_exact of_int_max of_int_min)
  show ?thesis
    using exact
    by (simp add: getEvaluatorFunctions_def float64_of_int_def roundToFloat64_exact small)
qed

theorem max_min_functions_witness:
  "\<bar>3::int\<bar> \<le> 2 ^ 53 \<and> \<bar>7::int\<bar> \<le> 2 ^ 53
   \<and> roundToFloat64 3 = 3
   \<and> maxFunction [GInt 3, GInt 7] = Value (GFloat (Fin (of_int (max 3 7))))
   \<and> minFunction [GInt 3, GInt 7] = Value (GFloat (Fin (of_int (min 3 7))))
   \<and> maxFunction [GInt 3, GInt 7] = Value (GFloat (Fin 7))
   \<and> minFunction [GInt 3, GInt 7] = Value (GFloat (Fin 3))"
  using max_min_functions [of 3 7]
  by (simp add: float64_of_int_def roundToFloat64_exact)

section \<open>The resolver\<close>

lemma resolveLoop_induct [case_names step]:
  assumes "\<And>remaining vars.
      (\<And>bi bm mn. fcard remaining \<noteq> 0 \<Longrightarrow>
          scanGroups remaining groups 0 (-1, 0, {||}) = (bi, bm, mn) \<Longrightarrow> bi \<noteq> -1 \<Longrightarrow>
          P (remaining |-| mn) (assignAll mn bi vars))
      \<Longrightarrow> P remaining vars"
  shows "P remaining vars"
proof -
  have "groups' = groups \<longrightarrow> P remaining vars" for name :: string and groups'
  proof (induction name groups' remaining vars rule: resolveLoop.induct)
    case (1 name groups' remaining vars)
    show ?case
    proof
      assume g: "groups' = groups"
      show "P remaining vars"
      proof (rule assms)
        fix bi bm mn
        assume "fcard remaining \<noteq> 0" "scanGroups remaining groups 0 (-1, 0, {||}) = (bi, bm, mn)"
          "bi \<noteq> -1"
        then show "P (remaining |-| mn) (assignAll mn bi vars)"
          using "1"[of bi "(bm, mn)" bm mn] g by simp
      qed
    qed
  qed
  then show ?thesis by simp
qed

lemma resolveLoop_unfold:
  "scanGroups remaining groups 0 (-1, 0, {||}) = (bi, bm, mn) \<Longrightarrow>
   resolveLoop name groups remaining vars =
     (if fcard remaining = 0 then (vars, None)
      else if bi = -1
        then (assignAll remaining (-2) vars, Some (VariablesNotFound remaining name))
        else resolveLoop name groups (remaining |-| mn) (assignAll mn bi vars))"
  by (simp add: resolveLoop.simps[of name groups remaining vars])

lemma resolveLoopFuel_enough:
  "fcard remaining < fuel \<Longrightarrow>
   resolveLoopFuel fuel name groups remaining vars = Some (resolveLoop name groups remaining vars)"
proof (induction remaining vars arbitrary: fuel rule: resolveLoop_induct[where groups = groups])
  case (step remaining vars)
  obtain n where fuel: "fuel = Suc n" using step.prems by (cases fuel) auto
  obtain bi bm mn where scan: "scanGroups remaining groups 0 (-1, 0, {||}) = (bi, bm, mn)"
    by (cases "scanGroups remaining groups 0 (-1, 0, {||})")
  show ?case
  proof (cases "fcard remaining = 0 \<or> bi = -1")
    case True
    then show ?thesis by (auto simp: fuel scan resolveLoop_unfold[OF scan])
  next
    case False
    then have "fcard (remaining |-| mn) < fcard remaining"
      using scanGroups_shrinks[OF scan] by simp
    then have "fcard (remaining |-| mn) < n" using step.prems fuel by simp
    from step.IH[OF _ scan _ this] False
    show ?thesis by (simp add: fuel scan resolveLoop_unfold[OF scan])
  qed
qed

text \<open>
  C10. The outer loop of the resolver terminates, and within as many rounds as the metric
  has variables: each round that does not leave the loop removes at least one name
  from the remaining set (\<open>scanGroups_shrinks\<close>, on which the termination of
  \<open>resolveLoop\<close> rests), so a bound of one more than the number of variables on the
  times the loop head is reached is never used up, and the bounded loop returns what
  the resolver returns.
\<close>

theorem resolver_terminates_within_variable_count:
  "resolveLoopFuel (Suc (fcard (fmdom (Variables metric)))) (Name metric) (EventGroups frame)
     (fmdom (Variables metric)) (Variables metric)
   = Some (loadMetricBestGroups metric frame)"
  by (simp add: resolveLoopFuel_enough loadMetricBestGroups_def del: resolveLoopFuel.simps)












lemma fmmap_keys_fmupd:
  "fmmap_keys f (fmupd k v m) = fmupd k (f k v) (fmmap_keys f m)"
  by (rule fmap_ext) simp

lemma fmmap_keys_fmempty: "fmmap_keys f fmempty = fmempty"
  by (rule fmap_ext) simp

lemma fmlookup_assignAll:
  "fmlookup (assignAll names v vars) k =
     (if k |\<in>| names then map_option (\<lambda>_. v) (fmlookup vars k) else fmlookup vars k)"
  by (cases "fmlookup vars k") (simp_all add: assignAll_def)

lemma fmdom_assignAll: "fmdom (assignAll names v vars) = fmdom vars"
  by (simp add: assignAll_def)

lemma scanGroups_result:
  assumes "scanGroups remaining groups 0 (-1, 0, {||}) = (bi, bm, mn)" and "bi \<noteq> -1"
  shows "0 \<le> bi" and "mn |\<subseteq>| remaining"
proof -
  have "bestOk remaining (scanGroups remaining groups 0 (-1, 0, {||}))"
    by (rule scanGroups_bestOk) (simp add: bestOk_def)
  with assms show "0 \<le> bi" and "mn |\<subseteq>| remaining" by (auto simp: bestOk_def)
qed

lemma resolveLoop_props:
  "resolveLoop name groups remaining vars = (vars', err) \<Longrightarrow>
     fmdom vars' = fmdom vars
     \<and> (\<forall>k. k |\<notin>| remaining \<longrightarrow> fmlookup vars' k = fmlookup vars k)
     \<and> (\<forall>k. k |\<in>| remaining \<and> k |\<in>| fmdom vars \<longrightarrow>
            (\<exists>v. fmlookup vars' k = Some v \<and> (v = -2 \<or> 0 \<le> v)))"
proof (induction remaining vars arbitrary: vars' err rule: resolveLoop_induct[where groups = groups])
  case (step remaining vars)
  obtain bi bm mn where scan: "scanGroups remaining groups 0 (-1, 0, {||}) = (bi, bm, mn)"
    by (cases "scanGroups remaining groups 0 (-1, 0, {||})")
  note unf = resolveLoop_unfold[OF scan, of name vars]
  show ?case
  proof (cases "fcard remaining = 0")
    case True
    with step.prems unf show ?thesis by auto
  next
    case nonempty: False
    show ?thesis
    proof (cases "bi = -1")
      case True
      with nonempty step.prems unf have "vars' = assignAll remaining (-2) vars" by simp
      then show ?thesis by (auto simp: fmlookup_assignAll fmdom_assignAll)
    next
      case False
      note res = scanGroups_result[OF scan False]
      from nonempty False step.prems unf
      have "resolveLoop name groups (remaining |-| mn) (assignAll mn bi vars) = (vars', err)"
        by simp
      from step.IH[OF nonempty scan False this]
      have dom: "fmdom vars' = fmdom vars"
        and out: "\<And>k. k |\<notin>| remaining |-| mn \<Longrightarrow>
                    fmlookup vars' k = fmlookup (assignAll mn bi vars) k"
        and inn: "\<And>k. k |\<in>| remaining |-| mn \<Longrightarrow> k |\<in>| fmdom vars \<Longrightarrow>
                    \<exists>v. fmlookup vars' k = Some v \<and> (v = -2 \<or> 0 \<le> v)"
        by (auto simp: fmdom_assignAll)
      have "fmlookup vars' k = fmlookup vars k" if "k |\<notin>| remaining" for k
      proof -
        from that res(2) have "k |\<notin>| mn" by auto
        with out[of k] that show ?thesis by (simp add: fmlookup_assignAll)
      qed
      moreover have "\<exists>v. fmlookup vars' k = Some v \<and> (v = -2 \<or> 0 \<le> v)"
        if "k |\<in>| remaining" "k |\<in>| fmdom vars" for k
      proof (cases "k |\<in>| mn")
        case True
        from that(2) obtain old where "fmlookup vars k = Some old" by auto
        with out[of k] True res(1) show ?thesis by (simp add: fmlookup_assignAll)
      next
        case False
        with that inn[of k] show ?thesis by simp
      qed
      ultimately show ?thesis using dom by blast
    qed
  qed
qed















section \<open>The normalizer\<close>

lemma getExpressionVariables_inRange:
  assumes "groupsInRange frame (Variables metric)"
  shows "getExpressionVariables metric frame previousTimestamp metadata =
    Return (Variables metric,
            fmmap_keys (variableValue frame previousTimestamp metadata) (Variables metric), None)"
proof -
  from assms have m2: "\<not> fBex (fmdom (Variables metric))
           (\<lambda>variableName. variableGroup (Variables metric) variableName = -2)"
    and m1: "\<not> fBex (fmdom (Variables metric))
           (\<lambda>variableName. variableGroup (Variables metric) variableName = -1)"
    by (auto simp: groupsInRange_def)
  from assms have ok: "\<not> fBex (fmdom (Variables metric)) (\<lambda>variableName.
            variableGroup (Variables metric) variableName < 0 \<or>
            int (length (EventGroups frame)) \<le> variableGroup (Variables metric) variableName)"
    by (auto simp: groupsInRange_def)
  show ?thesis
    unfolding getExpressionVariables_def setVariableValues_def using m2 m1 ok by simp
qed

lemma fdiv_zero_not_finite: "fdiv x (Fin 0) \<in> {PInf, NInf, NaN}"
  by (cases x) auto

lemma variableValue_zero_interval:
  assumes "fsub (Timestamp frame) previousTimestamp = Fin 0"
  shows "variableValue frame previousTimestamp metadata variableName groupIdx \<in> {PInf, NInf, NaN}"
proof -
  let ?raw = "eventValue (EventGroups frame ! nat groupIdx) variableName"
  have d: "fdiv ?raw (Fin 0) \<in> {PInf, NInf, NaN}" by (rule fdiv_zero_not_finite)
  have "fmul y (float64_of_int t) \<in> {PInf, NInf, NaN}" if "y \<in> {PInf, NInf, NaN}" "1 < t" for y t
    using that roundToFloat64_pos[of t] by (auto simp: float64_of_int_def)
  with d show ?thesis by (auto simp: variableValue_def assms Let_def)
qed

lemmas example_defs = exampleMetadata_def exampleMetric_def exampleFrame_def
  groupsInRange_def variableGroup_def variableValue_def eventValue_def float64_of_int_exact
  fmmap_keys_fmupd fmmap_keys_fmempty

lemma getExpressionVariables_bindings:
  assumes "getExpressionVariables metric frame previousTimestamp metadata = Return (vars, variables, err)"
  shows "variables = fmempty \<or>
         variables = fmmap_keys (variableValue frame previousTimestamp metadata) vars"
  using assms
  by (auto simp: getExpressionVariables_def setVariableValues_def Let_def
           split: if_splits prod.splits option.splits outcome.splits)

text \<open>
  C1 as stated fails: with the frame's timestamp equal to the previous one, the
  normalizer returns no error and binds the variable to an infinity.
\<close>

theorem zero_interval_no_error_counterexample:
  "getExpressionVariables (exampleMetric ''instr'' 0) (exampleFrame ''instr'' 2000000000 1)
      (Fin 1) (exampleMetadata 1)
   = Return (fmupd ''instr'' 0 fmempty, fmupd ''instr'' PInf fmempty, None)"
  by (simp add: getExpressionVariables_def setVariableValues_def example_defs)

text \<open>
  C1, amended. The normalizer does not look at the interval. For a metric whose
  variables all hold a group index of the frame, and for every interval (zero and
  negative ones too), it returns no error, leaves the variable map as it was, and binds
  every variable to its raw value divided by the interval in \<^verbatim>\<open>float64\<close> arithmetic (times
  the threads per core for the core-residency counter); with an interval of zero every
  bound value is an infinity or not-a-number.
\<close>

theorem normalizer_divides_by_any_interval:
  assumes "groupsInRange frame (Variables metric)"
  shows "getExpressionVariables metric frame previousTimestamp metadata =
           Return (Variables metric,
             fmmap_keys (variableValue frame previousTimestamp metadata) (Variables metric), None)
         \<and> (\<forall>variableName groupIdx.
               variableValue frame previousTimestamp metadata variableName groupIdx =
                 (let rate = fdiv (eventValue (EventGroups frame ! nat groupIdx) variableName)
                               (fsub (Timestamp frame) previousTimestamp)
                  in if ThreadsPerCore metadata > 1 \<and> variableName = ''cstate_core/c6-residency/''
                     then fmul rate (float64_of_int (ThreadsPerCore metadata)) else rate)
               \<and> (fsub (Timestamp frame) previousTimestamp = Fin 0 \<longrightarrow>
                    variableValue frame previousTimestamp metadata variableName groupIdx
                      \<in> {PInf, NInf, NaN}))"
  using getExpressionVariables_inRange[OF assms] variableValue_zero_interval
  by (simp add: variableValue_def)

theorem normalizer_divides_by_any_interval_witness:
  "groupsInRange (exampleFrame ''instr'' 0 1) (Variables (exampleMetric ''instr'' 0))
   \<and> fsub (Timestamp (exampleFrame ''instr'' 0 1)) (Fin 1) = Fin 0
   \<and> getExpressionVariables (exampleMetric ''instr'' 0) (exampleFrame ''instr'' 0 1)
        (Fin 1) (exampleMetadata 1)
      = Return (fmupd ''instr'' 0 fmempty, fmupd ''instr'' NaN fmempty, None)
   \<and> variableValue (exampleFrame ''instr'' 0 1) (Fin 1) (exampleMetadata 1) ''instr'' 0
        \<in> {PInf, NInf, NaN}"
proof -
  have h: "groupsInRange (exampleFrame ''instr'' 0 1) (Variables (exampleMetric ''instr'' 0))"
    by (simp add: example_defs)
  from normalizer_divides_by_any_interval[OF h, of "Fin 1" "exampleMetadata 1"]
  show ?thesis using h by (simp add: example_defs)
qed


text \<open>
  C7. Whenever the normalizer returns bindings, the value bound to a variable is its
  rate (raw value of the variable in its assigned group, divided by the interval),
  multiplied by the threads per core exactly when the threads per core exceed 1 and
  the name is the literal \<^verbatim>\<open>cstate_core/c6-residency/\<close>, and the plain rate otherwise.
\<close>

theorem hyperthreading_correction:
  assumes "getExpressionVariables metric frame previousTimestamp metadata = Return (vars, variables, err)"
    and "fmlookup variables variableName = Some v"
  shows "\<exists>groupIdx. fmlookup vars variableName = Some groupIdx \<and>
           v = (let rate = fdiv (eventValue (EventGroups frame ! nat groupIdx) variableName)
                             (fsub (Timestamp frame) previousTimestamp)
                in if ThreadsPerCore metadata > 1 \<and> variableName = ''cstate_core/c6-residency/''
                   then fmul rate (float64_of_int (ThreadsPerCore metadata))
                   else rate)"
proof -
  from getExpressionVariables_bindings[OF assms(1)] assms(2)
  have "fmlookup (fmmap_keys (variableValue frame previousTimestamp metadata) vars) variableName = Some v"
    by auto
  then obtain groupIdx where "fmlookup vars variableName = Some groupIdx"
    and "v = variableValue frame previousTimestamp metadata variableName groupIdx"
    by (cases "fmlookup vars variableName") auto
  then show ?thesis by (auto simp: variableValue_def)
qed

theorem hyperthreading_correction_witness:
  "getExpressionVariables (exampleMetric ''cstate_core/c6-residency/'' 0)
      (exampleFrame ''cstate_core/c6-residency/'' 500000000 1) (Fin 0) (exampleMetadata 2)
     = Return (fmupd ''cstate_core/c6-residency/'' 0 fmempty,
               fmupd ''cstate_core/c6-residency/'' (Fin 1000000000) fmempty, None)
   \<and> fmlookup (fmupd ''cstate_core/c6-residency/'' (Fin 1000000000) fmempty)
        ''cstate_core/c6-residency/'' = Some (Fin 1000000000)
   \<and> (\<exists>groupIdx. fmlookup (fmupd ''cstate_core/c6-residency/'' 0 fmempty)
          ''cstate_core/c6-residency/'' = Some groupIdx
        \<and> Fin 1000000000 = fmul (fdiv (Fin 500000000) (fsub (Fin 1) (Fin 0))) (float64_of_int 2))
   \<and> getExpressionVariables (exampleMetric ''cstate_core/c6-residency/'' 0)
      (exampleFrame ''cstate_core/c6-residency/'' 500000000 1) (Fin 0) (exampleMetadata 1)
     = Return (fmupd ''cstate_core/c6-residency/'' 0 fmempty,
               fmupd ''cstate_core/c6-residency/'' (Fin 500000000) fmempty, None)"
proof -
  have run: "getExpressionVariables (exampleMetric ''cstate_core/c6-residency/'' 0)
      (exampleFrame ''cstate_core/c6-residency/'' 500000000 1) (Fin 0) (exampleMetadata 2)
     = Return (fmupd ''cstate_core/c6-residency/'' 0 fmempty,
               fmupd ''cstate_core/c6-residency/'' (Fin 1000000000) fmempty, None)"
    by (simp add: getExpressionVariables_def setVariableValues_def example_defs)
  have look: "fmlookup (fmupd ''cstate_core/c6-residency/'' (Fin 1000000000) fmempty)
        ''cstate_core/c6-residency/'' = Some (Fin 1000000000)"
    by simp
  have one: "getExpressionVariables (exampleMetric ''cstate_core/c6-residency/'' 0)
      (exampleFrame ''cstate_core/c6-residency/'' 500000000 1) (Fin 0) (exampleMetadata 1)
     = Return (fmupd ''cstate_core/c6-residency/'' 0 fmempty,
               fmupd ''cstate_core/c6-residency/'' (Fin 500000000) fmempty, None)"
    by (simp add: getExpressionVariables_def setVariableValues_def example_defs)
  from hyperthreading_correction[OF run look] run look one
  show ?thesis by (simp add: example_defs)
qed

text \<open>
  C8 as stated fails: a resolved variable whose name is no event of its assigned
  group is bound to zero, and no error is returned.
\<close>

theorem missing_raw_value_counterexample:
  "getExpressionVariables (exampleMetric ''instr'' 0) (exampleFrame ''cycles'' 1000000000 1)
      (Fin 0) (exampleMetadata 1)
   = Return (fmupd ''instr'' 0 fmempty, fmupd ''instr'' (Fin 0) fmempty, None)"
  by (simp add: getExpressionVariables_def setVariableValues_def example_defs)

text \<open>
  C8, amended. For a metric whose variables all hold a group index of the frame, a
  variable whose name has no entry in its assigned group raises no error: reading the
  group's map gives the zero value, and the variable is bound to zero divided by the
  interval (times the threads per core for the core-residency counter).
\<close>

theorem missing_raw_value_reads_zero:
  assumes "groupsInRange frame (Variables metric)"
    and "fmlookup (Variables metric) variableName = Some groupIdx"
    and "fmlookup (EventValues (EventGroups frame ! nat groupIdx)) variableName = None"
  shows "\<exists>variables.
           getExpressionVariables metric frame previousTimestamp metadata =
             Return (Variables metric, variables, None)
           \<and> fmlookup variables variableName =
               Some (let rate = fdiv (Fin 0) (fsub (Timestamp frame) previousTimestamp)
                     in if ThreadsPerCore metadata > 1 \<and> variableName = ''cstate_core/c6-residency/''
                        then fmul rate (float64_of_int (ThreadsPerCore metadata))
                        else rate)"
  using getExpressionVariables_inRange[OF assms(1)] assms(2,3)
  by (simp add: variableValue_def eventValue_def)

theorem missing_raw_value_reads_zero_witness:
  "groupsInRange (exampleFrame ''cycles'' 7 2) (Variables (exampleMetric ''instr'' 0))
   \<and> fmlookup (Variables (exampleMetric ''instr'' 0)) ''instr'' = Some 0
   \<and> fmlookup (EventValues (EventGroups (exampleFrame ''cycles'' 7 2) ! nat 0)) ''instr'' = None
   \<and> (\<exists>variables.
         getExpressionVariables (exampleMetric ''instr'' 0) (exampleFrame ''cycles'' 7 2)
           (Fin 1) (exampleMetadata 1)
           = Return (Variables (exampleMetric ''instr'' 0), variables, None)
         \<and> fmlookup variables ''instr'' = Some (Fin 0))"
proof -
  have h1: "groupsInRange (exampleFrame ''cycles'' 7 2) (Variables (exampleMetric ''instr'' 0))"
    by (simp add: example_defs)
  have h2: "fmlookup (Variables (exampleMetric ''instr'' 0)) ''instr'' = Some 0"
    by (simp add: example_defs)
  have h3: "fmlookup (EventValues (EventGroups (exampleFrame ''cycles'' 7 2) ! nat 0)) ''instr'' = None"
    by (simp add: example_defs)
  from missing_raw_value_reads_zero[OF h1 h2 h3, of "Fin 1" "exampleMetadata 1"] h1 h2 h3
  show ?thesis by (simp add: example_defs)
qed


section \<open>The pipeline\<close>

lemma evaluateExpression_fault:
  assumes "evaluatorFaults ev metric variables functions"
  shows "\<exists>local e. evaluateExpression ev metric variables functions = (local, None, Some e)"
  using assms
  by (auto simp: evaluatorFaults_def evaluateExpression_def runEvaluate_def
           split: option.splits callres.splits)

lemma metricPass_skips:
  assumes "getExpressionVariables metricDef frame previousTimestamp metadata = Return (vars, variables, Some e)"
  shows "metricPass ev functions frame previousTimestamp metadata metricDef
           = Return (metricDef\<lparr>Variables := vars\<rparr>, None)"
  using assms by (simp add: metricPass_def)

lemma processMetrics_skip:
  assumes "metricPass ev functions frame previousTimestamp metadata metricDef = Return (stored, None)"
  shows "processMetrics ev functions frame previousTimestamp metadata (metricDef # rest) metrics err
           = skipMetric stored
               (processMetrics ev functions frame previousTimestamp metadata rest metrics None)"
  using assms by (simp add: skipMetric_def split: outcome.splits)

lemmas example_run_defs = getExpressionVariables_def setVariableValues_def
  loadMetricBestGroups_def resolveLoop.simps assignAll_def
  metricPass_def evaluateExpression_def runEvaluate_def processEvents_def
  exampleEvaluator_def
  fcard_finsert_if fcard_fempty


lemma metricPass_keeps_EvaluatorExpression:
  "metricPass ev functions frame previousTimestamp metadata metricDef = Return (stored, produced)
   \<Longrightarrow> EvaluatorExpression stored = EvaluatorExpression metricDef"
  by (auto simp: metricPass_def Let_def
           split: outcome.splits prod.splits option.splits gvalue.splits)

lemma processMetrics_keeps_EvaluatorExpression:
  "processMetrics ev functions frame previousTimestamp metadata defs metrics err
     = Return (defs', metrics', err')
   \<Longrightarrow> map EvaluatorExpression defs' = map EvaluatorExpression defs"
proof (induction defs arbitrary: defs' metrics metrics' err err')
  case Nil
  then show ?case by simp
next
  case (Cons d ds)
  from Cons.prems obtain stored produced rest' where
    pass: "metricPass ev functions frame previousTimestamp metadata d = Return (stored, produced)"
    and rest: "processMetrics ev functions frame previousTimestamp metadata ds
                 (case produced of None \<Rightarrow> metrics | Some m \<Rightarrow> metrics @ [m]) None
               = Return (rest', metrics', err')"
    and defs': "defs' = stored # rest'"
    by (auto split: outcome.splits prod.splits)
  from Cons.IH[OF rest] metricPass_keeps_EvaluatorExpression[OF pass] defs'
  show ?case by simp
qed

text \<open>
  A formula whose value is not a \<^verbatim>\<open>float64\<close> (a comparison gives a boolean) is no fault
  of the evaluator: it returns the value with no error, and the unchecked assertion of
  line 177 panics outside the recovery of \<^verbatim>\<open>evaluateExpression\<close>.
\<close>

lemma non_float_result_panics:
  assumes "getExpressionVariables metricDef frame previousTimestamp metadata = Return (vars, variables, None)"
    and "evaluateExpression ev (metricDef\<lparr>Variables := vars\<rparr>) variables functions
           = (local, Some (GBool b), None)"
  shows "metricPass ev functions frame previousTimestamp metadata metricDef
           = Panic (RuntimeError ''interface conversion'')"
  using assms by (simp add: metricPass_def)

text \<open>
  C6. A fault of the evaluator while compiling or evaluating one metric's formula comes
  back from \<^verbatim>\<open>evaluateExpression\<close> as an error (with no result), nothing panics, and the
  loop goes on: the definitions after it are processed exactly as if the loop had
  started with them. The same holds for a metric whose variables cannot be resolved
  (or whose normalizer returns any other error). In the witness, a set of one
  unresolvable and one valid metric yields exactly the valid metric.
\<close>

theorem evaluator_faults_are_isolated:
  "(getExpressionVariables metricDef frame previousTimestamp metadata = Return (vars, variables, None)
    \<and> evaluatorFaults ev (metricDef\<lparr>Variables := vars\<rparr>) variables functions
    \<longrightarrow> (\<exists>local e. evaluateExpression ev (metricDef\<lparr>Variables := vars\<rparr>) variables functions
                      = (local, None, Some e))
        \<and> processMetrics ev functions frame previousTimestamp metadata (metricDef # rest) metrics err
            = skipMetric (metricDef\<lparr>Variables := vars\<rparr>)
                (processMetrics ev functions frame previousTimestamp metadata rest metrics None))
   \<and> (getExpressionVariables metricDef frame previousTimestamp metadata = Return (vars, variables, Some e)
    \<longrightarrow> processMetrics ev functions frame previousTimestamp metadata (metricDef # rest) metrics err
            = skipMetric (metricDef\<lparr>Variables := vars\<rparr>)
                (processMetrics ev functions frame previousTimestamp metadata rest metrics None))"
proof (intro conjI impI)
  assume a: "getExpressionVariables metricDef frame previousTimestamp metadata = Return (vars, variables, None)
    \<and> evaluatorFaults ev (metricDef\<lparr>Variables := vars\<rparr>) variables functions"
  then obtain local e' where
    ev: "evaluateExpression ev (metricDef\<lparr>Variables := vars\<rparr>) variables functions = (local, None, Some e')"
    using evaluateExpression_fault by blast
  then show "\<exists>local e. evaluateExpression ev (metricDef\<lparr>Variables := vars\<rparr>) variables functions
                      = (local, None, Some e)" by blast
  from a ev have "metricPass ev functions frame previousTimestamp metadata metricDef
           = Return (metricDef\<lparr>Variables := vars\<rparr>, None)"
    by (simp add: metricPass_def)
  then show "processMetrics ev functions frame previousTimestamp metadata (metricDef # rest) metrics err
            = skipMetric (metricDef\<lparr>Variables := vars\<rparr>)
                (processMetrics ev functions frame previousTimestamp metadata rest metrics None)"
    by (rule processMetrics_skip)
next
  assume "getExpressionVariables metricDef frame previousTimestamp metadata = Return (vars, variables, Some e)"
  then have "metricPass ev functions frame previousTimestamp metadata metricDef
           = Return (metricDef\<lparr>Variables := vars\<rparr>, None)"
    by (rule metricPass_skips)
  then show "processMetrics ev functions frame previousTimestamp metadata (metricDef # rest) metrics err
            = skipMetric (metricDef\<lparr>Variables := vars\<rparr>)
                (processMetrics ev functions frame previousTimestamp metadata rest metrics None)"
    by (rule processMetrics_skip)
qed

theorem evaluator_faults_are_isolated_witness:
  "getExpressionVariables brokenMetric (exampleFrame ''instr'' 2000000000 1) (Fin 0) (exampleMetadata 1)
     = Return (fmupd ''instr'' 0 fmempty, fmupd ''instr'' (Fin 2000000000) fmempty, None)
   \<and> evaluatorFaults exampleEvaluator (brokenMetric\<lparr>Variables := fmupd ''instr'' 0 fmempty\<rparr>)
        (fmupd ''instr'' (Fin 2000000000) fmempty) getEvaluatorFunctions
   \<and> (\<exists>local e. evaluateExpression exampleEvaluator
          (brokenMetric\<lparr>Variables := fmupd ''instr'' 0 fmempty\<rparr>)
          (fmupd ''instr'' (Fin 2000000000) fmempty) getEvaluatorFunctions = (local, None, Some e))
   \<and> processMetrics exampleEvaluator getEvaluatorFunctions (exampleFrame ''instr'' 2000000000 1)
        (Fin 0) (exampleMetadata 1) [brokenMetric, exampleMetric ''instr'' 0] [] None
      = Return ([brokenMetric, exampleMetric ''instr'' 0],
                [\<lparr>MetricName = ''m'', MetricValue = Fin 2000000000\<rparr>], None)
   \<and> getExpressionVariables (exampleMetric ''cycles'' (-1)) (exampleFrame ''instr'' 2000000000 1)
        (Fin 0) (exampleMetadata 1)
      = Return (fmupd ''cycles'' (-2) fmempty, fmempty,
                Some (NotAssigned (VariablesNotFound {|''cycles''|} ''m'')))
   \<and> processMetrics exampleEvaluator getEvaluatorFunctions (exampleFrame ''instr'' 2000000000 1)
        (Fin 0) (exampleMetadata 1) [exampleMetric ''cycles'' (-1), exampleMetric ''instr'' (-1)] [] None
      = Return ([exampleMetric ''cycles'' (-2), exampleMetric ''instr'' 0],
                [\<lparr>MetricName = ''m'', MetricValue = Fin 2000000000\<rparr>], None)"
proof -
  let ?F = "exampleFrame ''instr'' 2000000000 1"
  have h1: "getExpressionVariables brokenMetric ?F (Fin 0) (exampleMetadata 1)
     = Return (fmupd ''instr'' 0 fmempty, fmupd ''instr'' (Fin 2000000000) fmempty, None)"
    by (simp add: brokenMetric_def example_run_defs example_defs)
  have h2: "evaluatorFaults exampleEvaluator (brokenMetric\<lparr>Variables := fmupd ''instr'' 0 fmempty\<rparr>)
        (fmupd ''instr'' (Fin 2000000000) fmempty) getEvaluatorFunctions"
    by (simp add: evaluatorFaults_def brokenMetric_def exampleEvaluator_def example_defs)
  have h3: "getExpressionVariables (exampleMetric ''cycles'' (-1)) ?F (Fin 0) (exampleMetadata 1)
      = Return (fmupd ''cycles'' (-2) fmempty, fmempty,
                Some (NotAssigned (VariablesNotFound {|''cycles''|} ''m'')))"
    by (simp add: example_run_defs example_defs)
  have good: "processMetrics exampleEvaluator getEvaluatorFunctions ?F (Fin 0) (exampleMetadata 1)
        [exampleMetric ''instr'' 0] [] None
      = Return ([exampleMetric ''instr'' 0], [\<lparr>MetricName = ''m'', MetricValue = Fin 2000000000\<rparr>], None)"
    by (simp add: example_run_defs example_defs)
  have good': "processMetrics exampleEvaluator getEvaluatorFunctions ?F (Fin 0) (exampleMetadata 1)
        [exampleMetric ''instr'' (-1)] [] None
      = Return ([exampleMetric ''instr'' 0], [\<lparr>MetricName = ''m'', MetricValue = Fin 2000000000\<rparr>], None)"
    by (simp add: example_run_defs example_defs)
  have same: "brokenMetric\<lparr>Variables := fmupd ''instr'' 0 fmempty\<rparr> = brokenMetric"
    by (simp add: brokenMetric_def example_defs)
  have failed: "(exampleMetric ''cycles'' (-1))\<lparr>Variables := fmupd ''cycles'' (-2) fmempty\<rparr>
                  = exampleMetric ''cycles'' (-2)"
    by (simp add: example_defs)
  from evaluator_faults_are_isolated[of brokenMetric ?F "Fin 0" "exampleMetadata 1"
        "fmupd ''instr'' 0 fmempty" "fmupd ''instr'' (Fin 2000000000) fmempty" exampleEvaluator
        getEvaluatorFunctions "[exampleMetric ''instr'' 0]" "[]" None]
    evaluator_faults_are_isolated[of "exampleMetric ''cycles'' (-1)" ?F "Fin 0" "exampleMetadata 1"
        "fmupd ''cycles'' (-2) fmempty" fmempty exampleEvaluator
        getEvaluatorFunctions "[exampleMetric ''instr'' (-1)]" "[]" None
        "NotAssigned (VariablesNotFound {|''cycles''|} ''m'')"]
    h1 h2 h3
  show ?thesis by (simp add: good good' same failed skipMetric_def del: processMetrics.simps)
qed

text \<open>
  C2 fails on the code. When \<^verbatim>\<open>getEventFrame\<close> fails, \<^verbatim>\<open>processEvents\<close> wraps the error
  but does not return: it runs the loop on the frame it was handed, and the first pass
  overwrites the error. With one definition the caller gets a nil error (and the
  definition's variable marked \<open>-2\<close> for the rest of the run); only with no definition
  at all does the wrapped error come back.
\<close>

theorem frame_error_is_dropped:
  "processEvents failingGetEventFrame exampleEvaluator [''not a sample'']
      [exampleMetric ''instr'' (-1)] getEvaluatorFunctions (Fin 0) (exampleMetadata 1)
     = Return ([exampleMetric ''instr'' (-2)], [], Fin 0, None)
   \<and> processEvents failingGetEventFrame exampleEvaluator [''not a sample'']
      [] getEvaluatorFunctions (Fin 0) (exampleMetadata 1)
     = Return ([], [], Fin 0, Some (FrameError (ExternalError ''unrecognized event format'')))"
  by (simp add: failingGetEventFrame_def example_run_defs example_defs)

text \<open>
  C3 fails on the code. \<^verbatim>\<open>evaluateExpression\<close> stores the compiled expression in its
  by-value copy of the definition, and the pipeline's definitions keep a nil
  \<^verbatim>\<open>EvaluatorExpression\<close> after the call (\<open>processMetrics_keeps_EvaluatorExpression\<close>
  for every run), so the next frame compiles the formula again.
\<close>

theorem compiled_expression_is_not_kept:
  "processEvents exampleGetEventFrame exampleEvaluator [] [exampleMetric ''instr'' 0]
      getEvaluatorFunctions (Fin 0) (exampleMetadata 1)
     = Return ([exampleMetric ''instr'' 0],
               [\<lparr>MetricName = ''m'', MetricValue = Fin 2000000000\<rparr>], Fin 1, None)
   \<and> EvaluatorExpression (exampleMetric ''instr'' 0) = None
   \<and> EvaluatorExpression
        (fst (evaluateExpression exampleEvaluator (exampleMetric ''instr'' 0)
                (fmupd ''instr'' (Fin 2000000000) fmempty) getEvaluatorFunctions))
       = Some ''instr''"
  by (simp add: exampleGetEventFrame_def example_run_defs example_defs)


section \<open>Resolution states over a run\<close>

lemma stateStep_refl: "stateStep v v"
  by (simp add: stateStep_def)

lemma stateStep_trans: "stateStep a b \<Longrightarrow> stateStep b c \<Longrightarrow> stateStep a c"
  by (auto simp: stateStep_def)

lemma variablesAdvance_refl: "startable vars \<Longrightarrow> variablesAdvance vars vars"
  by (simp add: variablesAdvance_def stateStep_refl)

lemma variablesAdvance_startable: "variablesAdvance old new \<Longrightarrow> startable new"
  by (simp add: variablesAdvance_def)

lemma variablesAdvance_failed: "variablesAdvance old new \<Longrightarrow> anyFailed old \<Longrightarrow> anyFailed new"
  by (auto simp: variablesAdvance_def)

lemma variablesAdvance_trans:
  assumes "variablesAdvance a b" and "variablesAdvance b c"
  shows "variablesAdvance a c"
proof -
  from assms have dom: "fmdom b = fmdom a" "fmdom c = fmdom b"
    by (simp_all add: variablesAdvance_def)
  have step: "stateStep (variableGroup a k) (variableGroup c k)" if "k |\<in>| fmdom a" for k
  proof -
    from assms(1) that have "stateStep (variableGroup a k) (variableGroup b k)"
      by (auto simp: variablesAdvance_def)
    moreover from assms(2) that dom have "stateStep (variableGroup b k) (variableGroup c k)"
      by (auto simp: variablesAdvance_def)
    ultimately show ?thesis by (rule stateStep_trans)
  qed
  have "c = a" if "anyFailed a"
    using assms that by (auto simp: variablesAdvance_def)
  moreover have "c = a" if "allResolved a"
    using assms that by (auto simp: variablesAdvance_def)
  moreover from assms(2) have "startable c" by (rule variablesAdvance_startable)
  ultimately show ?thesis using dom step by (auto simp: variablesAdvance_def)
qed

lemma getExpressionVariables_advance:
  assumes start: "startable (Variables metric)"
    and run: "getExpressionVariables metric frame previousTimestamp metadata = Return (vars', variables, err)"
  shows "variablesAdvance (Variables metric) vars'"
    and "anyFailed (Variables metric) \<Longrightarrow> err \<noteq> None"
proof -
  let ?V = "Variables metric"
  note unf = getExpressionVariables_def[of metric frame previousTimestamp metadata,
      folded anyFailed_def anyUnresolved_def]
  show "err \<noteq> None" if "anyFailed ?V"
    using run that by (auto simp: unf)
  show "variablesAdvance ?V vars'"
  proof (cases "anyFailed ?V")
    case True
    with run have "vars' = ?V" by (simp add: unf)
    with start show ?thesis by (simp add: variablesAdvance_refl)
  next
    case nofail: False
    show ?thesis
    proof (cases "anyUnresolved ?V")
      case False
      with nofail run have "vars' = ?V"
        by (auto simp: unf split: outcome.splits prod.splits)
      with start show ?thesis by (simp add: variablesAdvance_refl)
    next
      case True
      with start have allU: "allUnresolved ?V" by (simp add: startable_def)
      obtain vars1 e1 where load: "loadMetricBestGroups metric frame = (vars1, e1)"
        by (cases "loadMetricBestGroups metric frame")
      from run nofail True load have "vars' = vars1"
        by (auto simp: unf split: outcome.splits prod.splits option.splits)
      with load have res: "resolveLoop (Name metric) (EventGroups frame) (fmdom ?V) ?V = (vars', e1)"
        by (simp add: loadMetricBestGroups_def)
      from resolveLoop_props[OF res]
      have dom: "fmdom vars' = fmdom ?V"
        and new: "\<And>k. k |\<in>| fmdom ?V \<Longrightarrow> \<exists>v. fmlookup vars' k = Some v \<and> (v = -2 \<or> 0 \<le> v)"
        by auto
      have new': "variableGroup vars' k = -2 \<or> 0 \<le> variableGroup vars' k" if "k |\<in>| fmdom ?V" for k
        using new[OF that] by (auto simp: variableGroup_def)
      have old: "variableGroup ?V k = -1" if "k |\<in>| fmdom ?V" for k
        using allU that by (auto simp: allUnresolved_def)
      have steps: "fBall (fmdom ?V) (\<lambda>k. stateStep (variableGroup ?V k) (variableGroup vars' k))"
        using old new' by (auto simp: stateStep_def)
      have notres: "\<not> allResolved ?V"
      proof
        assume "allResolved ?V"
        moreover from True obtain k where "k |\<in>| fmdom ?V" "variableGroup ?V k = -1"
          by (auto simp: anyUnresolved_def)
        ultimately show False by (auto simp: allResolved_def)
      qed
      have "\<not> anyUnresolved vars'"
        using new' dom by (fastforce simp: anyUnresolved_def)
      then have "startable vars'" by (simp add: startable_def)
      with dom steps nofail notres show ?thesis by (simp add: variablesAdvance_def)
    qed
  qed
qed

lemma metricPass_advance:
  assumes start: "startable (Variables d)"
    and pass: "metricPass ev functions frame previousTimestamp metadata d = Return (d', produced)"
  shows "defAdvance d d'"
    and "produced = Some m \<Longrightarrow> MetricName m = Name d \<and> \<not> anyFailed (Variables d)"
proof -
  from pass obtain vars' variables err where
    run: "getExpressionVariables d frame previousTimestamp metadata = Return (vars', variables, err)"
    and d': "d' = d\<lparr>Variables := vars'\<rparr>"
    and prod: "produced \<noteq> None \<longrightarrow> err = None \<and> (\<exists>v. produced = Some \<lparr>MetricName = Name d, MetricValue = v\<rparr>)"
    by (auto simp: metricPass_def Let_def
             split: outcome.splits prod.splits option.splits gvalue.splits)
  from getExpressionVariables_advance(1)[OF start run] d'
  show "defAdvance d d'" by (simp add: defAdvance_def)
  show "MetricName m = Name d \<and> \<not> anyFailed (Variables d)" if "produced = Some m"
    using that prod getExpressionVariables_advance(2)[OF start run] by auto
qed

lemma processMetrics_advance:
  assumes "\<forall>d \<in> set defs. startable (Variables d)"
    and "processMetrics ev functions frame previousTimestamp metadata defs metrics err
           = Return (defs', metrics', err')"
  shows "list_all2 defAdvance defs defs'
         \<and> (\<forall>m \<in> set metrics'. m \<in> set metrics \<or>
               (\<exists>d \<in> set defs. MetricName m = Name d \<and> \<not> anyFailed (Variables d)))"
  using assms
proof (induction defs arbitrary: defs' metrics metrics' err err')
  case Nil
  then show ?case by simp
next
  case (Cons d ds)
  from Cons.prems(2) obtain stored produced rest' where
    pass: "metricPass ev functions frame previousTimestamp metadata d = Return (stored, produced)"
    and rest: "processMetrics ev functions frame previousTimestamp metadata ds
                 (case produced of None \<Rightarrow> metrics | Some m \<Rightarrow> metrics @ [m]) None
               = Return (rest', metrics', err')"
    and defs': "defs' = stored # rest'"
    by (auto split: outcome.splits prod.splits)
  from Cons.prems(1) have sd: "startable (Variables d)" and sds: "\<forall>d \<in> set ds. startable (Variables d)"
    by simp_all
  note adv = metricPass_advance[OF sd pass]
  from Cons.IH[OF sds rest]
  have ih1: "list_all2 defAdvance ds rest'"
    and ih2: "\<And>m. m \<in> set metrics' \<Longrightarrow>
        m \<in> set (case produced of None \<Rightarrow> metrics | Some m \<Rightarrow> metrics @ [m]) \<or>
        (\<exists>d \<in> set ds. MetricName m = Name d \<and> \<not> anyFailed (Variables d))"
    by auto
  have "m \<in> set metrics \<or> (\<exists>x \<in> set (d # ds). MetricName m = Name x \<and> \<not> anyFailed (Variables x))"
    if "m \<in> set metrics'" for m
    using ih2[OF that] adv(2) by (cases produced) auto
  with ih1 adv(1) defs' show ?case by simp
qed

lemma processEvents_advance:
  assumes "\<forall>d \<in> set defs. startable (Variables d)"
    and "processEvents getEventFrame ev perfEvents defs functions previousTimestamp metadata
           = Return (defs', metrics, timeStamp, err)"
  shows "list_all2 defAdvance defs defs'"
    and "\<forall>m \<in> set metrics. \<exists>d \<in> set defs. MetricName m = Name d \<and> \<not> anyFailed (Variables d)"
proof -
  obtain eventFrame frameErr where gef: "getEventFrame perfEvents = (eventFrame, frameErr)"
    by (cases "getEventFrame perfEvents")
  from assms(2) gef obtain err0 where
    "processMetrics ev functions eventFrame previousTimestamp metadata defs []
       (map_option FrameError frameErr) = Return (defs', metrics, err0)"
    by (auto simp: processEvents_def split: outcome.splits prod.splits)
  from processMetrics_advance[OF assms(1) this]
  show "list_all2 defAdvance defs defs'"
    and "\<forall>m \<in> set metrics. \<exists>d \<in> set defs. MetricName m = Name d \<and> \<not> anyFailed (Variables d)"
    by auto
qed

lemma list_all2_defAdvance_startable:
  assumes "list_all2 defAdvance defs defs'"
  shows "\<forall>d \<in> set defs'. startable (Variables d)"
proof
  fix d assume "d \<in> set defs'"
  then obtain i where i: "i < length defs'" "defs' ! i = d" by (auto simp: in_set_conv_nth)
  with assms have "defAdvance (defs ! i) d" by (auto simp: list_all2_conv_all_nth)
  then show "startable (Variables d)"
    by (auto simp: defAdvance_def dest: variablesAdvance_startable)
qed

lemma list_all2_defAdvance_trans:
  "list_all2 defAdvance xs ys \<Longrightarrow> list_all2 defAdvance ys zs \<Longrightarrow> list_all2 defAdvance xs zs"
proof (rule list_all2_trans)
  fix a b c :: "'a MetricDefinition"
  assume "defAdvance a b" "defAdvance b c"
  then show "defAdvance a c"
    by (auto simp: defAdvance_def intro: variablesAdvance_trans)
qed

lemma list_all2_defAdvance_back:
  assumes "list_all2 defAdvance defs defs1" and "d1 \<in> set defs1" and "\<not> anyFailed (Variables d1)"
  shows "\<exists>d \<in> set defs. Name d = Name d1 \<and> \<not> anyFailed (Variables d)"
proof -
  from assms(2) obtain i where i: "i < length defs1" "defs1 ! i = d1"
    by (auto simp: in_set_conv_nth)
  with assms(1) have len: "i < length defs" and adv: "defAdvance (defs ! i) d1"
    by (auto simp: list_all2_conv_all_nth)
  from adv assms(3) have "\<not> anyFailed (Variables (defs ! i))"
    by (auto simp: defAdvance_def dest: variablesAdvance_failed)
  with adv len show ?thesis by (auto simp: defAdvance_def)
qed

lemmas state_defs = anyFailed_def anyUnresolved_def allUnresolved_def allResolved_def
  startable_def stateStep_def variablesAdvance_def defAdvance_def

text \<open>
  Why the start matters: the resolver's loop begins with all the names of the map, not
  only the unresolved ones, so in a map that mixes an unresolved variable with a
  resolved one (no run from all-unresolved definitions reaches such a map) the resolved
  variable is assigned again.
\<close>

lemma mixed_state_is_resolved_again:
  "getExpressionVariables
     ((exampleMetric ''instr'' 5)\<lparr>Variables := fmupd ''cycles'' (-1) (fmupd ''instr'' 5 fmempty)\<rparr>)
     laterFrame (Fin 1) (exampleMetadata 1)
   = Return (fmupd ''cycles'' 0 (fmupd ''instr'' 1 fmempty),
             fmupd ''cycles'' (Fin 1000000000) (fmupd ''instr'' (Fin 2000000000) fmempty), None)"
  by (simp add: laterFrame_def example_run_defs example_defs)


text \<open>
  C5. Over every sequence of pipeline calls that starts from definitions whose variables
  are all Unresolved (or, more generally, from startable maps, which every call
  preserves), each definition's variable map only advances: the names stay, each
  variable either keeps its state or goes from Unresolved to Failed or to a group, a
  map with a Failed variable is never changed again, and a fully resolved map is never
  changed again, whatever the later frames look like. Every metric that any call of the
  sequence puts out carries the name of a definition that had no Failed variable at the
  start of the sequence, so (names being unique) a definition with a Failed variable
  never appears in a later output.
\<close>

theorem resolution_states_only_advance:
  assumes "pipelineCalls getEventFrame ev functions defs calls = Return (defs', outs)"
    and "\<forall>d \<in> set defs. startable (Variables d)"
  shows "list_all2 defAdvance defs defs'
         \<and> (\<forall>metrics \<in> set outs. \<forall>m \<in> set metrics.
               \<exists>d \<in> set defs. MetricName m = Name d \<and> \<not> anyFailed (Variables d))"
  using assms
proof (induction calls arbitrary: defs defs' outs)
  case Nil
  then have "defs' = defs" "outs = []" by simp_all
  moreover have "list_all2 defAdvance defs defs"
    using Nil.prems(2)
    by (auto simp: list_all2_conv_all_nth defAdvance_def intro: variablesAdvance_refl)
  ultimately show ?case by simp
next
  case (Cons call calls)
  obtain perfEvents previousTimestamp metadata where call: "call = (perfEvents, previousTimestamp, metadata)"
    by (cases call)
  from Cons.prems(1) call obtain defs1 metrics timeStamp err outs1 where
    first: "processEvents getEventFrame ev perfEvents defs functions previousTimestamp metadata
              = Return (defs1, metrics, timeStamp, err)"
    and rest: "pipelineCalls getEventFrame ev functions defs1 calls = Return (defs', outs1)"
    and outs: "outs = metrics # outs1"
    by (auto split: outcome.splits prod.splits)
  note adv1 = processEvents_advance[OF Cons.prems(2) first]
  from Cons.IH[OF rest list_all2_defAdvance_startable[OF adv1(1)]]
  have adv2: "list_all2 defAdvance defs1 defs'"
    and out2: "\<And>ms m. ms \<in> set outs1 \<Longrightarrow> m \<in> set ms \<Longrightarrow>
                 \<exists>d1 \<in> set defs1. MetricName m = Name d1 \<and> \<not> anyFailed (Variables d1)"
    by auto
  have "\<exists>d \<in> set defs. MetricName m = Name d \<and> \<not> anyFailed (Variables d)"
    if "ms \<in> set outs" "m \<in> set ms" for ms m
  proof (cases "ms = metrics")
    case True
    with that adv1(2) show ?thesis by auto
  next
    case False
    with that outs have "ms \<in> set outs1" by simp
    from out2[OF this that(2)] obtain d1 where
      d1: "d1 \<in> set defs1" "MetricName m = Name d1" "\<not> anyFailed (Variables d1)" by auto
    from list_all2_defAdvance_back[OF adv1(1) d1(1,3)] d1(2) show ?thesis by metis
  qed
  with list_all2_defAdvance_trans[OF adv1(1) adv2] show ?case by blast
qed


theorem resolution_states_only_advance_witness:
  "pipelineCalls twoLayoutsGetEventFrame exampleEvaluator getEvaluatorFunctions
      [namedMetric ''c'' ''cycles'' (-1), namedMetric ''i'' ''instr'' (-1)]
      [([''first''], Fin 0, exampleMetadata 1), ([''later''], Fin 1, exampleMetadata 1)]
     = Return ([namedMetric ''c'' ''cycles'' (-2), namedMetric ''i'' ''instr'' 0],
               [[\<lparr>MetricName = ''i'', MetricValue = Fin 2000000000\<rparr>],
                [\<lparr>MetricName = ''i'', MetricValue = Fin 0\<rparr>]])
   \<and> startable (Variables (namedMetric ''c'' ''cycles'' (-1)))
   \<and> startable (Variables (namedMetric ''i'' ''instr'' (-1)))
   \<and> list_all2 defAdvance
        [namedMetric ''c'' ''cycles'' (-1), namedMetric ''i'' ''instr'' (-1)]
        [namedMetric ''c'' ''cycles'' (-2), namedMetric ''i'' ''instr'' 0]
   \<and> list_all (\<lambda>metrics. list_all (\<lambda>m.
          list_ex (\<lambda>d. MetricName m = Name d \<and> \<not> anyFailed (Variables d))
            [namedMetric ''c'' ''cycles'' (-1), namedMetric ''i'' ''instr'' (-1)]) metrics)
        [[\<lparr>MetricName = ''i'', MetricValue = Fin 2000000000\<rparr>],
         [\<lparr>MetricName = ''i'', MetricValue = Fin 0\<rparr>]]"
proof -
  have run: "pipelineCalls twoLayoutsGetEventFrame exampleEvaluator getEvaluatorFunctions
      [namedMetric ''c'' ''cycles'' (-1), namedMetric ''i'' ''instr'' (-1)]
      [([''first''], Fin 0, exampleMetadata 1), ([''later''], Fin 1, exampleMetadata 1)]
     = Return ([namedMetric ''c'' ''cycles'' (-2), namedMetric ''i'' ''instr'' 0],
               [[\<lparr>MetricName = ''i'', MetricValue = Fin 2000000000\<rparr>],
                [\<lparr>MetricName = ''i'', MetricValue = Fin 0\<rparr>]])"
    by (simp add: namedMetric_def laterFrame_def twoLayoutsGetEventFrame_def
          example_run_defs example_defs)
  have start: "\<forall>d \<in> set [namedMetric ''c'' ''cycles'' (-1), namedMetric ''i'' ''instr'' (-1)].
                 startable (Variables d)"
    by (simp add: namedMetric_def state_defs example_defs)
  from resolution_states_only_advance[OF run start] run start
  show ?thesis by (simp add: list_all_iff list_ex_iff)
qed


end
